theory Spec2Isabelle
  imports Main "HOL-Library.Multiset"
begin

section \<open>Exceptions, outcomes and the log\<close>

text \<open>
  The exceptions the Python code raises or catches.  In discord.py, \<open>NotFound\<close> and
  \<open>Forbidden\<close> are subclasses of \<open>HTTPException\<close>; \<open>is_http\<close> is the test an
  \<^verbatim>\<open>except discord.HTTPException\<close> clause performs.  \<open>SQLAlchemyError\<close> stands for any
  failure of the relational store.
\<close>

datatype exc =
  SQLAlchemyError | ValueError | IndexError | Forbidden | NotFound | HTTPException
  | UnknownTimeZoneError | OtherError

fun is_http :: "exc \<Rightarrow> bool" where
  "is_http Forbidden = True"
| "is_http NotFound = True"
| "is_http HTTPException = True"
| "is_http _ = False"

datatype 'a outcome = Return 'a | Raise exc

datatype level = DEBUG | INFO | WARNING | ERROR

type_synonym log_entry = "level \<times> string"

section \<open>The relational store (database/models.py)\<close>

text \<open>
  Strings hold the UTF-8 bytes of the Python strings.  Timestamps are seconds, passed in
  by the caller where the code reads \<^verbatim>\<open>datetime.utcnow()\<close>.  A table is the list of its
  rows in insertion order; \<^verbatim>\<open>.first()\<close> is the first row of that list that matches.
\<close>

record server_config =
  sc_id :: nat
  sc_guild_id :: string
  sc_enabled :: bool
  sc_channel_id :: "string option"
  sc_poll_hour :: int
  sc_poll_minute :: int
  sc_timezone :: string
  sc_created_at :: int
  sc_updated_at :: int

record poll_option =
  po_id :: nat
  po_server_config_id :: nat
  po_emoji :: string
  po_text :: string
  po_order_index :: nat
  po_created_at :: int

record poll =
  p_id :: nat
  p_server_config_id :: nat
  p_guild_id :: string
  p_channel_id :: string
  p_message_id :: string
  p_poll_date :: string
  p_is_test :: bool
  p_created_at :: int

record vote =
  v_id :: nat
  v_poll_id :: nat
  v_user_id :: string
  v_username :: string
  v_display_name :: string
  v_emoji :: string
  v_voted_at :: int
  v_updated_at :: int

record db =
  servers :: "server_config list"
  options :: "poll_option list"
  polls :: "poll list"
  votes :: "vote list"
  next_server_id :: nat
  next_option_id :: nat
  next_poll_id :: nat
  next_vote_id :: nat
  db_log :: "log_entry list"

definition empty_db :: db where
  "empty_db = \<lparr>servers = [], options = [], polls = [], votes = [],
     next_server_id = 1, next_option_id = 1, next_poll_id = 1, next_vote_id = 1,
     db_log = []\<rparr>"

definition log_db :: "level \<Rightarrow> string \<Rightarrow> db \<Rightarrow> db" where
  "log_db lv msg d = d\<lparr>db_log := db_log d @ [(lv, msg)]\<rparr>"

text \<open>Changing the first row that satisfies a predicate: an ORM object fetched with
  \<^verbatim>\<open>.first()\<close> and then assigned to.\<close>

fun update_first :: "('a \<Rightarrow> bool) \<Rightarrow> ('a \<Rightarrow> 'a) \<Rightarrow> 'a list \<Rightarrow> 'a list" where
  "update_first P f [] = []"
| "update_first P f (x # xs) = (if P x then f x # xs else x # update_first P f xs)"

definition find_poll :: "db \<Rightarrow> string \<Rightarrow> poll option" where
  "find_poll d message_id = find (\<lambda>p. p_message_id p = message_id) (polls d)"

definition find_vote :: "db \<Rightarrow> nat \<Rightarrow> string \<Rightarrow> vote option" where
  "find_vote d pid user_id =
     find (\<lambda>v. v_poll_id v = pid \<and> v_user_id v = user_id) (votes d)"

definition find_server :: "db \<Rightarrow> string \<Rightarrow> server_config option" where
  "find_server d guild_id = find (\<lambda>s. sc_guild_id s = guild_id) (servers d)"

section \<open>DatabaseManager (database/database_manager.py)\<close>

text \<open>
  Every operation takes a flag \<open>fault\<close>: the store raises inside the \<^verbatim>\<open>try\<close> block
  before anything is committed, so that the \<^verbatim>\<open>except\<close> branch rolls the session back.
\<close>

subsection \<open>save_vote\<close>

definition new_vote ::
  "db \<Rightarrow> int \<Rightarrow> nat \<Rightarrow> string \<Rightarrow> string \<Rightarrow> string \<Rightarrow> string \<Rightarrow> vote" where
  "new_vote d now pid user_id username display_name emoji =
     \<lparr>v_id = next_vote_id d, v_poll_id = pid, v_user_id = user_id,
      v_username = username, v_display_name = display_name, v_emoji = emoji,
      v_voted_at = now, v_updated_at = now\<rparr>"

definition save_vote ::
  "db \<Rightarrow> bool \<Rightarrow> int \<Rightarrow> string \<Rightarrow> string \<Rightarrow> string \<Rightarrow> string \<Rightarrow> string
     \<Rightarrow> unit outcome \<times> db" where
  "save_vote d fault now message_id user_id username display_name emoji =
    (if fault then (Raise SQLAlchemyError, log_db ERROR ''Failed to save vote'' d)
     else case find_poll d message_id of
       None \<Rightarrow> (Return (), log_db WARNING ''Poll not found for message'' d)
     | Some poll \<Rightarrow>
        (case find_vote d (p_id poll) user_id of
           Some existing_vote \<Rightarrow>
             (Return (), log_db DEBUG ''Updated vote''
               (d\<lparr>votes := update_first
                    (\<lambda>v. v_poll_id v = p_id poll \<and> v_user_id v = user_id)
                    (\<lambda>v. v\<lparr>v_emoji := emoji, v_updated_at := now,
                            v_display_name := display_name\<rparr>)
                    (votes d)\<rparr>))
         | None \<Rightarrow>
             (Return (), log_db DEBUG ''Created new vote''
               (d\<lparr>votes := votes d @
                      [new_vote d now (p_id poll) user_id username display_name emoji],
                  next_vote_id := Suc (next_vote_id d)\<rparr>))))"

subsection \<open>remove_vote\<close>

text \<open>The \<^verbatim>\<open>except\<close> branch of \<open>remove_vote\<close> has no \<^verbatim>\<open>raise\<close>: the function
  always returns normally, so its result is the store alone.\<close>

definition remove_vote :: "db \<Rightarrow> bool \<Rightarrow> string \<Rightarrow> string \<Rightarrow> db" where
  "remove_vote d fault message_id user_id =
    (if fault then log_db ERROR ''Failed to remove vote'' d
     else case find_poll d message_id of
       None \<Rightarrow> d
     | Some poll \<Rightarrow>
        (case find_vote d (p_id poll) user_id of
           Some vote \<Rightarrow> log_db DEBUG ''Removed vote'' (d\<lparr>votes := remove1 vote (votes d)\<rparr>)
         | None \<Rightarrow> d))"

subsection \<open>get_poll_votes\<close>

text \<open>The returned dictionary, in insertion order of its keys: a vote's display name is
  appended to the list of its emoji, and a new emoji gets a new key.\<close>

fun add_to_group :: "string \<Rightarrow> string \<Rightarrow> (string \<times> string list) list
    \<Rightarrow> (string \<times> string list) list" where
  "add_to_group e n [] = [(e, [n])]"
| "add_to_group e n ((k, ns) # r) =
     (if k = e then (k, ns @ [n]) # r else (k, ns) # add_to_group e n r)"

definition group_votes :: "vote list \<Rightarrow> (string \<times> string list) list" where
  "group_votes vs = foldl (\<lambda>res v. add_to_group (v_emoji v) (v_display_name v) res) [] vs"

definition get_poll_votes ::
  "db \<Rightarrow> bool \<Rightarrow> string \<Rightarrow> (string \<times> string list) list \<times> db" where
  "get_poll_votes d fault message_id =
    (if fault then ([], log_db ERROR ''Failed to get poll votes'' d)
     else case find_poll d message_id of
       None \<Rightarrow> ([], d)
     | Some poll \<Rightarrow> (group_votes (filter (\<lambda>v. v_poll_id v = p_id poll) (votes d)), d))"

subsection \<open>create_poll\<close>

text \<open>Deleting a poll through the session deletes its votes too (the relationship's
  cascade \<^verbatim>\<open>all, delete-orphan\<close>).\<close>

definition delete_poll :: "db \<Rightarrow> poll \<Rightarrow> db" where
  "delete_poll d p =
     d\<lparr>polls := remove1 p (polls d),
       votes := filter (\<lambda>v. v_poll_id v \<noteq> p_id p) (votes d)\<rparr>"

text \<open>The column \<open>message_id\<close> is declared unique: inserting a second poll with a stored
  message id fails at commit.  After the insert, all polls of the server but the three
  newest (by creation time) are deleted.\<close>

definition create_poll ::
  "db \<Rightarrow> bool \<Rightarrow> int \<Rightarrow> string \<Rightarrow> string \<Rightarrow> string \<Rightarrow> string \<Rightarrow> bool
     \<Rightarrow> nat outcome \<times> db" where
  "create_poll d fault now guild_id channel_id message_id poll_date is_test =
    (if fault then (Raise SQLAlchemyError, log_db ERROR ''Failed to create poll'' d)
     else case find_server d guild_id of
       None \<Rightarrow> (Raise ValueError, log_db ERROR ''Failed to create poll'' d)
     | Some server \<Rightarrow>
        (if find_poll d message_id \<noteq> None
         then (Raise SQLAlchemyError, log_db ERROR ''Failed to create poll'' d)
         else
           let poll = \<lparr>p_id = next_poll_id d, p_server_config_id = sc_id server,
                        p_guild_id = guild_id, p_channel_id = channel_id,
                        p_message_id = message_id, p_poll_date = poll_date,
                        p_is_test = is_test, p_created_at = now\<rparr>;
               d1 = d\<lparr>polls := polls d @ [poll], next_poll_id := Suc (next_poll_id d)\<rparr>;
               old_polls = drop 3 (rev (sort_key p_created_at
                             (filter (\<lambda>p. p_server_config_id p = sc_id server) (polls d1))));
               d2 = foldl delete_poll d1 old_polls
           in (Return (p_id poll), log_db INFO ''Created poll'' d2)))"

subsection \<open>cleanup_old_data\<close>

definition cleanup_old_data :: "db \<Rightarrow> bool \<Rightarrow> int \<Rightarrow> int \<Rightarrow> db" where
  "cleanup_old_data d fault now days =
    (if fault then log_db ERROR ''Failed to cleanup old data'' d
     else
       let cutoff_date = now - days * 86400;
           old_polls = filter (\<lambda>p. p_created_at p < cutoff_date) (polls d)
       in log_db INFO ''Cleaned up old polls'' (foldl delete_poll d old_polls))"

subsection \<open>save_server_config and get_server_config\<close>

text \<open>
  A configuration dictionary.  \<open>None\<close> in a field means that the key is absent (for
  \<open>channel_id\<close>: absent or \<^verbatim>\<open>None\<close>), so that \<^verbatim>\<open>config.get(key, default)\<close> is a case
  distinction on the field.
\<close>

record config =
  cfg_enabled :: "bool option"
  cfg_channel_id :: "string option"
  cfg_poll_hour :: "int option"
  cfg_poll_minute :: "int option"
  cfg_timezone :: "string option"
  cfg_poll_options :: "string list option"
  cfg_poll_emojis :: "string list option"
  cfg_poll_history :: "nat list option"

definition get_or :: "'a option \<Rightarrow> 'a \<Rightarrow> 'a" where
  "get_or v dflt = (case v of None \<Rightarrow> dflt | Some x \<Rightarrow> x)"

text \<open>The fallback emoji list of \<open>save_server_config\<close>.\<close>

definition db_default_emojis :: "string list" where
  "db_default_emojis =
    [[CHR 0xE2, CHR 0x9C, CHR 0x85],
     [CHR 0xF0, CHR 0x9F, CHR 0x8C, CHR 0x85],
     [CHR 0xE2, CHR 0x98, CHR 0x80, CHR 0xEF, CHR 0xB8, CHR 0x8F],
     [CHR 0xF0, CHR 0x9F, CHR 0x8C, CHR 0x99],
     [CHR 0xF0, CHR 0x9F, CHR 0x8C, CHR 0x83],
     [CHR 0xF0, CHR 0x9F, CHR 0xA4, CHR 0x94],
     [CHR 0xE2, CHR 0x9D, CHR 0x8C]]"

text \<open>The emoji stored for an option whose index is beyond the emoji list.\<close>

definition question_mark :: string where
  "question_mark = [CHR 0xE2, CHR 0x9D, CHR 0x93]"

definition new_options ::
  "nat \<Rightarrow> int \<Rightarrow> nat \<Rightarrow> string list \<Rightarrow> string list \<Rightarrow> poll_option list" where
  "new_options first_id now server_id poll_options emojis =
     map (\<lambda>i. \<lparr>po_id = first_id + i, po_server_config_id = server_id,
                po_emoji = (if i < length emojis then emojis ! i else question_mark),
                po_text = take 7 poll_options ! i, po_order_index = i,
                po_created_at = now\<rparr>)
         [0..<length (take 7 poll_options)]"

text \<open>The three steps of \<open>save_server_config\<close>: get or create the server row, assign
  its columns, and replace its option rows when the dictionary has \<open>poll_options\<close>.\<close>

definition get_or_create_server :: "db \<Rightarrow> int \<Rightarrow> string \<Rightarrow> db" where
  "get_or_create_server d now guild_id =
     (case find_server d guild_id of
        Some server \<Rightarrow> d
      | None \<Rightarrow>
          d\<lparr>servers := servers d @
               [\<lparr>sc_id = next_server_id d, sc_guild_id = guild_id,
                 sc_enabled = False, sc_channel_id = None, sc_poll_hour = 5,
                 sc_poll_minute = 0, sc_timezone = ''UTC'',
                 sc_created_at = now, sc_updated_at = now\<rparr>],
            next_server_id := Suc (next_server_id d)\<rparr>)"

definition update_server_fields :: "db \<Rightarrow> int \<Rightarrow> string \<Rightarrow> config \<Rightarrow> db" where
  "update_server_fields d now guild_id cfg =
     d\<lparr>servers := update_first (\<lambda>s. sc_guild_id s = guild_id)
          (\<lambda>s. s\<lparr>sc_enabled := get_or (cfg_enabled cfg) False,
                  sc_channel_id := cfg_channel_id cfg,
                  sc_poll_hour := get_or (cfg_poll_hour cfg) 5,
                  sc_poll_minute := get_or (cfg_poll_minute cfg) 0,
                  sc_timezone := get_or (cfg_timezone cfg) ''UTC'',
                  sc_updated_at := now\<rparr>)
          (servers d)\<rparr>"

definition replace_poll_options ::
  "db \<Rightarrow> int \<Rightarrow> nat \<Rightarrow> string list \<Rightarrow> string list \<Rightarrow> db" where
  "replace_poll_options d now server_id poll_options emojis =
     d\<lparr>options :=
         filter (\<lambda>opt. po_server_config_id opt \<noteq> server_id) (options d)
           @ new_options (next_option_id d) now server_id poll_options emojis,
       next_option_id := next_option_id d + length (take 7 poll_options)\<rparr>"

definition save_server_config ::
  "db \<Rightarrow> bool \<Rightarrow> int \<Rightarrow> string \<Rightarrow> config \<Rightarrow> unit outcome \<times> db" where
  "save_server_config d fault now guild_id cfg =
    (if fault then (Raise SQLAlchemyError, log_db ERROR ''Failed to save server config'' d)
     else
       let d1 = get_or_create_server d now guild_id;
           server_id = (case find_server d1 guild_id of
                          Some server \<Rightarrow> sc_id server | None \<Rightarrow> 0);
           d2 = update_server_fields d1 now guild_id cfg;
           d3 = (case cfg_poll_options cfg of
                   None \<Rightarrow> d2
                 | Some poll_options \<Rightarrow>
                     replace_poll_options d2 now server_id poll_options
                       (get_or (cfg_poll_emojis cfg) db_default_emojis))
       in (Return (), log_db DEBUG ''Saved config for server'' d3))"

definition stored_options :: "db \<Rightarrow> nat \<Rightarrow> poll_option list" where
  "stored_options d server_id =
     sort_key po_order_index (filter (\<lambda>opt. po_server_config_id opt = server_id) (options d))"

definition get_server_config :: "db \<Rightarrow> bool \<Rightarrow> string \<Rightarrow> config option \<times> db" where
  "get_server_config d fault guild_id =
    (if fault then (None, log_db ERROR ''Failed to get server config'' d)
     else case find_server d guild_id of
       None \<Rightarrow> (None, d)
     | Some server \<Rightarrow>
         (Some \<lparr>cfg_enabled = Some (sc_enabled server),
                 cfg_channel_id = sc_channel_id server,
                 cfg_poll_hour = Some (sc_poll_hour server),
                 cfg_poll_minute = Some (sc_poll_minute server),
                 cfg_timezone = Some (sc_timezone server),
                 cfg_poll_options = Some (map po_text (stored_options d (sc_id server))),
                 cfg_poll_emojis = Some (map po_emoji (stored_options d (sc_id server))),
                 cfg_poll_history = Some []\<rparr>, d))"

section \<open>ConfigManager (bot/config.py)\<close>

text \<open>
  The manager keeps the dictionary \<open>configs\<close> in memory and mirrors it into the JSON
  file.  \<open>write_ok\<close> says whether writing the file succeeds; \<open>save_configs\<close> catches a
  failed write and logs it.
\<close>

record config_manager =
  configs :: "string \<rightharpoonup> config"
  config_file :: "string \<rightharpoonup> config"
  cm_log :: "log_entry list"

definition log_cm :: "level \<Rightarrow> string \<Rightarrow> config_manager \<Rightarrow> config_manager" where
  "log_cm lv msg c = c\<lparr>cm_log := cm_log c @ [(lv, msg)]\<rparr>"

definition save_configs :: "config_manager \<Rightarrow> bool \<Rightarrow> config_manager" where
  "save_configs c write_ok =
     (if write_ok
      then log_cm DEBUG ''Configurations saved successfully'' (c\<lparr>config_file := configs c\<rparr>)
      else log_cm ERROR ''Failed to save configurations'' c)"

text \<open>The option texts of \<open>get_default_config\<close>, byte for byte as the source file has
  them.\<close>

definition config_default_poll_options :: "string list" where
  "config_default_poll_options =
    [[CHR 0xC3, CHR 0xA2, CHR 0xC5, CHR 0x93, CHR 0xE2, CHR 0x80, CHR 0xA6] @ '' '' @
      [CHR 0xC3, CHR 0x90, CHR 0xC2, CHR 0xA1, CHR 0xC3, CHR 0x90, CHR 0xC2, CHR 0xB2,
      CHR 0xC3, CHR 0x90, CHR 0xC2, CHR 0xBE, CHR 0xC3, CHR 0x90, CHR 0xC2, CHR 0xB1,
      CHR 0xC3, CHR 0x90, CHR 0xC2, CHR 0xBE, CHR 0xC3, CHR 0x90, CHR 0xC2, CHR 0xB4,
      CHR 0xC3, CHR 0x90, CHR 0xC2, CHR 0xB5, CHR 0xC3, CHR 0x90, CHR 0xC2, CHR 0xBD] @
      '' '' @ [CHR 0xC3, CHR 0x91, CHR 0xE2, CHR 0x80, CHR 0xA0, CHR 0xC3, CHR 0x91,
      CHR 0xC3, CHR 0x90, CHR 0xC2, CHR 0xBB] @ '' '' @ [CHR 0xC3, CHR 0x90, CHR 0xC2,
      CHR 0xB4, CHR 0xC3, CHR 0x90, CHR 0xC2, CHR 0xB5, CHR 0xC3, CHR 0x90, CHR 0xC2,
      CHR 0xBD],
     [CHR 0xC3, CHR 0xB0, CHR 0xC5, CHR 0xB8, CHR 0xC5, CHR 0x92, CHR 0xE2, CHR 0x80,
      CHR 0xA6] @ '' '' @ [CHR 0xC3, CHR 0x90, CHR 0xC2, CHR 0xA1, CHR 0xC3, CHR 0x90,
      CHR 0xC2, CHR 0xB2, CHR 0xC3, CHR 0x90, CHR 0xC2, CHR 0xBE, CHR 0xC3, CHR 0x90,
      CHR 0xC2, CHR 0xB1, CHR 0xC3, CHR 0x90, CHR 0xC2, CHR 0xBE, CHR 0xC3, CHR 0x90,
      CHR 0xC2, CHR 0xB4, CHR 0xC3, CHR 0x90, CHR 0xC2, CHR 0xB5, CHR 0xC3, CHR 0x90,
      CHR 0xC2, CHR 0xBD] @ '' '' @ [CHR 0xC3, CHR 0x91, CHR 0xC3, CHR 0x91, CHR 0xC6,
      CHR 0x92, CHR 0xC3, CHR 0x91, CHR 0xE2, CHR 0x80, CHR 0x9A, CHR 0xC3, CHR 0x91,
      CHR 0xE2, CHR 0x82, CHR 0xAC, CHR 0xC3, CHR 0x90, CHR 0xC2, CHR 0xB8, CHR 0xC3,
      CHR 0x90, CHR 0xC2, CHR 0xBD] @ '' (9:00 - 12:00)'',
     [CHR 0xC3, CHR 0xA2, CHR 0xCB, CHR 0x9C, CHR 0xE2, CHR 0x82, CHR 0xAC, CHR 0xC3,
      CHR 0xAF, CHR 0xC2, CHR 0xB8] @ '' '' @ [CHR 0xC3, CHR 0x90, CHR 0xC2, CHR 0xA1,
      CHR 0xC3, CHR 0x90, CHR 0xC2, CHR 0xB2, CHR 0xC3, CHR 0x90, CHR 0xC2, CHR 0xBE,
      CHR 0xC3, CHR 0x90, CHR 0xC2, CHR 0xB1, CHR 0xC3, CHR 0x90, CHR 0xC2, CHR 0xBE,
      CHR 0xC3, CHR 0x90, CHR 0xC2, CHR 0xB4, CHR 0xC3, CHR 0x90, CHR 0xC2, CHR 0xB5,
      CHR 0xC3, CHR 0x90, CHR 0xC2, CHR 0xBD] @ '' '' @ [CHR 0xC3, CHR 0x91, CHR 0xC3,
      CHR 0x90, CHR 0xC2, CHR 0xBB, CHR 0xC3, CHR 0x90, CHR 0xC2, CHR 0xB5, CHR 0xC3,
      CHR 0x90, CHR 0xC2, CHR 0xB4, CHR 0xC3, CHR 0x90, CHR 0xC2, CHR 0xBE, CHR 0xC3,
      CHR 0x90, CHR 0xC2, CHR 0xB1, CHR 0xC3, CHR 0x90, CHR 0xC2, CHR 0xB5, CHR 0xC3,
      CHR 0x90, CHR 0xC2, CHR 0xB4] @ '' (12:00 - 18:00)'',
     [CHR 0xC3, CHR 0xB0, CHR 0xC5, CHR 0xB8, CHR 0xC5, CHR 0x92, CHR 0xE2, CHR 0x84,
      CHR 0xA2] @ '' '' @ [CHR 0xC3, CHR 0x90, CHR 0xC2, CHR 0xA1, CHR 0xC3, CHR 0x90,
      CHR 0xC2, CHR 0xB2, CHR 0xC3, CHR 0x90, CHR 0xC2, CHR 0xBE, CHR 0xC3, CHR 0x90,
      CHR 0xC2, CHR 0xB1, CHR 0xC3, CHR 0x90, CHR 0xC2, CHR 0xBE, CHR 0xC3, CHR 0x90,
      CHR 0xC2, CHR 0xB4, CHR 0xC3, CHR 0x90, CHR 0xC2, CHR 0xB5, CHR 0xC3, CHR 0x90,
      CHR 0xC2, CHR 0xBD] @ '' '' @ [CHR 0xC3, CHR 0x90, CHR 0xC2, CHR 0xB2, CHR 0xC3,
      CHR 0x90, CHR 0xC2, CHR 0xB5, CHR 0xC3, CHR 0x91, CHR 0xE2, CHR 0x80, CHR 0xA1,
      CHR 0xC3, CHR 0x90, CHR 0xC2, CHR 0xB5, CHR 0xC3, CHR 0x91, CHR 0xE2, CHR 0x82,
      CHR 0xAC] @ '' (18:00 - 23:00)'',
     [CHR 0xC3, CHR 0xB0, CHR 0xC5, CHR 0xB8, CHR 0xC5, CHR 0x92, CHR 0xC6, CHR 0x92] @
      '' '' @ [CHR 0xC3, CHR 0x90, CHR 0xC2, CHR 0xA1, CHR 0xC3, CHR 0x90, CHR 0xC2,
      CHR 0xB2, CHR 0xC3, CHR 0x90, CHR 0xC2, CHR 0xBE, CHR 0xC3, CHR 0x90, CHR 0xC2,
      CHR 0xB1, CHR 0xC3, CHR 0x90, CHR 0xC2, CHR 0xBE, CHR 0xC3, CHR 0x90, CHR 0xC2,
      CHR 0xB4, CHR 0xC3, CHR 0x90, CHR 0xC2, CHR 0xB5, CHR 0xC3, CHR 0x90, CHR 0xC2,
      CHR 0xBD] @ '' '' @ [CHR 0xC3, CHR 0x90, CHR 0xC2, CHR 0xBA, CHR 0xC3, CHR 0x91,
      CHR 0xC5, CHR 0xA0, CHR 0xC3, CHR 0x91, CHR 0xC3, CHR 0x90, CHR 0xC2, CHR 0xBD,
      CHR 0xC3, CHR 0x90, CHR 0xC2, CHR 0xBE] @ '' '' @ [CHR 0xC3, CHR 0x90, CHR 0xC2,
      CHR 0xB2, CHR 0xC3, CHR 0x90, CHR 0xC2, CHR 0xB5, CHR 0xC3, CHR 0x91, CHR 0xE2,
      CHR 0x80, CHR 0xA1, CHR 0xC3, CHR 0x90, CHR 0xC2, CHR 0xB5, CHR 0xC3, CHR 0x91,
      CHR 0xE2, CHR 0x82, CHR 0xAC] @ '' (23:00+)'',
     [CHR 0xC3, CHR 0xB0, CHR 0xC5, CHR 0xB8, CHR 0xC2, CHR 0xA4, CHR 0xE2, CHR 0x80,
      CHR 0x9D] @ '' '' @ [CHR 0xC3, CHR 0x90, CHR 0xC3, CHR 0x90, CHR 0xC2, CHR 0xB5] @
      '' '' @ [CHR 0xC3, CHR 0x91, CHR 0xC3, CHR 0x91, CHR 0xC5, CHR 0xA0, CHR 0xC3,
      CHR 0x90, CHR 0xC2, CHR 0xBC] @ '' '' @ [CHR 0xC3, CHR 0x91, CHR 0xC3, CHR 0x90,
      CHR 0xC2, CHR 0xB8, CHR 0xC3, CHR 0x90, CHR 0xC2, CHR 0xB3, CHR 0xC3, CHR 0x91,
      CHR 0xC6, CHR 0x92, CHR 0xC3, CHR 0x91, CHR 0xE2, CHR 0x82, CHR 0xAC, CHR 0xC3,
      CHR 0x90, CHR 0xC2, CHR 0xB5, CHR 0xC3, CHR 0x90, CHR 0xC2, CHR 0xBD],
     [CHR 0xC3, CHR 0xA2, CHR 0xC5, CHR 0x92] @ '' '' @ [CHR 0xC3, CHR 0x90, CHR 0xC3,
      CHR 0x90, CHR 0xC2, CHR 0xB5] @ '' '' @ [CHR 0xC3, CHR 0x91, CHR 0xC3, CHR 0x91,
      CHR 0xC5, CHR 0xA0, CHR 0xC3, CHR 0x90, CHR 0xC2, CHR 0xBC] @ '' '' @ [CHR 0xC3,
      CHR 0x91, CHR 0xC3, CHR 0x90, CHR 0xC2, CHR 0xB2, CHR 0xC3, CHR 0x90, CHR 0xC2,
      CHR 0xBE, CHR 0xC3, CHR 0x90, CHR 0xC2, CHR 0xB1, CHR 0xC3, CHR 0x90, CHR 0xC2,
      CHR 0xBE, CHR 0xC3, CHR 0x90, CHR 0xC2, CHR 0xB4, CHR 0xC3, CHR 0x90, CHR 0xC2,
      CHR 0xB5, CHR 0xC3, CHR 0x90, CHR 0xC2, CHR 0xBD]]"

definition get_default_config :: config where
  "get_default_config =
     \<lparr>cfg_enabled = Some False, cfg_channel_id = None, cfg_poll_hour = Some 8,
      cfg_poll_minute = Some 0, cfg_timezone = Some ''UTC'',
      cfg_poll_options = Some config_default_poll_options, cfg_poll_emojis = None,
      cfg_poll_history = Some []\<rparr>"

definition initialize_guild :: "config_manager \<Rightarrow> bool \<Rightarrow> string \<Rightarrow> config_manager" where
  "initialize_guild c write_ok guild_id =
     (if configs c guild_id = None
      then log_cm INFO ''Initialized configuration for guild''
             (save_configs (c\<lparr>configs := (configs c)(guild_id \<mapsto> get_default_config)\<rparr>)
                write_ok)
      else c)"

definition get_guild_config ::
  "config_manager \<Rightarrow> bool \<Rightarrow> string \<Rightarrow> config \<times> config_manager" where
  "get_guild_config c write_ok guild_id =
     (let c1 = (if configs c guild_id = None then initialize_guild c write_ok guild_id
                else c)
      in (get_or (configs c1 guild_id) get_default_config, c1))"

definition save_guild_config ::
  "config_manager \<Rightarrow> bool \<Rightarrow> string \<Rightarrow> config \<Rightarrow> config_manager" where
  "save_guild_config c write_ok guild_id cfg =
     log_cm DEBUG ''Saved configuration for guild''
       (save_configs (c\<lparr>configs := (configs c)(guild_id \<mapsto> cfg)\<rparr>) write_ok)"

definition remove_guild :: "config_manager \<Rightarrow> bool \<Rightarrow> string \<Rightarrow> config_manager" where
  "remove_guild c write_ok guild_id =
     (if configs c guild_id \<noteq> None
      then log_cm INFO ''Removed configuration for guild''
             (save_configs (c\<lparr>configs := (configs c)(guild_id := None)\<rparr>) write_ok)
      else c)"

section \<open>PollScheduler: triggers (bot/scheduler.py)\<close>

text \<open>
  The job store of the scheduling library, as far as \<open>PollScheduler\<close> uses it: a list of
  jobs, \<open>get_job\<close> by id, \<open>remove_job\<close> by id, and \<open>add_job\<close> called with
  \<^verbatim>\<open>replace_existing=True\<close>, which overwrites a job of the same id and adds the job
  otherwise.
\<close>

record trigger =
  tr_hour :: int
  tr_minute :: int
  tr_timezone :: string

record job =
  job_id :: string
  job_trigger :: trigger
  job_args :: string

record scheduler =
  jobs :: "job list"
  sched_log :: "log_entry list"

definition log_sched :: "level \<Rightarrow> string \<Rightarrow> scheduler \<Rightarrow> scheduler" where
  "log_sched lv msg s = s\<lparr>sched_log := sched_log s @ [(lv, msg)]\<rparr>"

definition get_job :: "scheduler \<Rightarrow> string \<Rightarrow> job option" where
  "get_job s jid = find (\<lambda>j. job_id j = jid) (jobs s)"

definition remove_job :: "scheduler \<Rightarrow> string \<Rightarrow> scheduler" where
  "remove_job s jid = s\<lparr>jobs := filter (\<lambda>j. job_id j \<noteq> jid) (jobs s)\<rparr>"

definition add_job :: "scheduler \<Rightarrow> job \<Rightarrow> scheduler" where
  "add_job s j =
     (if get_job s (job_id j) \<noteq> None
      then s\<lparr>jobs := update_first (\<lambda>k. job_id k = job_id j) (\<lambda>k. j) (jobs s)\<rparr>
      else s\<lparr>jobs := jobs s @ [j]\<rparr>)"

text \<open>\<^verbatim>\<open>pytz.timezone(name)\<close> raises \<open>UnknownTimeZoneError\<close> for a name outside the zone
  database, whose names are the parameter \<open>known_zones\<close>.  \<^verbatim>\<open>CronTrigger(hour, minute, timezone)\<close>
  rejects an hour outside 0..23 and a minute outside 0..59 with \<open>ValueError\<close>.\<close>

definition pytz_timezone :: "string list \<Rightarrow> string \<Rightarrow> string outcome" where
  "pytz_timezone known_zones name =
     (if name \<in> set known_zones then Return name else Raise UnknownTimeZoneError)"

definition CronTrigger :: "int \<Rightarrow> int \<Rightarrow> string \<Rightarrow> trigger outcome" where
  "CronTrigger hour minute tz =
     (if 0 \<le> hour \<and> hour \<le> 23 \<and> 0 \<le> minute \<and> minute \<le> 59
      then Return \<lparr>tr_hour = hour, tr_minute = minute, tr_timezone = tz\<rparr>
      else Raise ValueError)"

definition daily_job_id :: "string \<Rightarrow> string" where
  "daily_job_id guild_id = ''daily_poll_'' @ guild_id"

text \<open>The body of the \<^verbatim>\<open>try\<close> block of \<open>schedule_guild_poll\<close>.\<close>

definition schedule_guild_poll_body ::
  "scheduler \<Rightarrow> string list \<Rightarrow> string \<Rightarrow> config \<Rightarrow> unit outcome \<times> scheduler" where
  "schedule_guild_poll_body s known_zones guild_id cfg =
     (let timezone_str = get_or (cfg_timezone cfg) ''UTC'' in
      case pytz_timezone known_zones timezone_str of
        Raise e \<Rightarrow> (Raise e, s)
      | Return timezone \<Rightarrow>
         (let poll_hour = get_or (cfg_poll_hour cfg) 20;
              poll_minute = get_or (cfg_poll_minute cfg) 0
          in case CronTrigger poll_hour poll_minute timezone of
               Raise e \<Rightarrow> (Raise e, s)
             | Return trg \<Rightarrow>
                (let jid = daily_job_id guild_id;
                     s1 = (if get_job s jid \<noteq> None then remove_job s jid else s);
                     s2 = add_job s1 \<lparr>job_id = jid, job_trigger = trg, job_args = guild_id\<rparr>
                 in (Return (), log_sched INFO ''Scheduled daily poll for guild'' s2))))"

text \<open>The \<^verbatim>\<open>except Exception\<close> clause logs and does not raise again.\<close>

definition schedule_guild_poll ::
  "scheduler \<Rightarrow> string list \<Rightarrow> string \<Rightarrow> config \<Rightarrow> unit outcome \<times> scheduler" where
  "schedule_guild_poll s known_zones guild_id cfg =
     (case schedule_guild_poll_body s known_zones guild_id cfg of
        (Return u, s') \<Rightarrow> (Return u, s')
      | (Raise e, s') \<Rightarrow>
          (Return (), log_sched ERROR ''Failed to schedule poll for guild'' s'))"

definition unschedule_guild_poll :: "scheduler \<Rightarrow> string \<Rightarrow> scheduler" where
  "unschedule_guild_poll s guild_id =
     (let jid = daily_job_id guild_id in
      if get_job s jid \<noteq> None
      then log_sched INFO ''Unscheduled daily poll for guild'' (remove_job s jid)
      else s)"

definition triggers_of :: "scheduler \<Rightarrow> string \<Rightarrow> job list" where
  "triggers_of s guild_id = filter (\<lambda>j. job_id j = daily_job_id guild_id) (jobs s)"

section \<open>Histories of the store\<close>

text \<open>The mutating operations of \<open>DatabaseManager\<close>, and the store they lead to from the
  empty database.\<close>

datatype db_op =
  SaveVote bool int string string string string string
| RemoveVote bool string string
| CreatePoll bool int string string string string bool
| CleanupOldData bool int int
| SaveServerConfig bool int string config

fun apply_op :: "db \<Rightarrow> db_op \<Rightarrow> db" where
  "apply_op d (SaveVote fault now message_id user_id username display_name emoji) =
     snd (save_vote d fault now message_id user_id username display_name emoji)"
| "apply_op d (RemoveVote fault message_id user_id) = remove_vote d fault message_id user_id"
| "apply_op d (CreatePoll fault now guild_id channel_id message_id poll_date is_test) =
     snd (create_poll d fault now guild_id channel_id message_id poll_date is_test)"
| "apply_op d (CleanupOldData fault now days) = cleanup_old_data d fault now days"
| "apply_op d (SaveServerConfig fault now guild_id cfg) =
     snd (save_server_config d fault now guild_id cfg)"

definition run_ops :: "db_op list \<Rightarrow> db" where
  "run_ops ops = foldl apply_op empty_db ops"

definition vote_key :: "vote \<Rightarrow> nat \<times> string" where
  "vote_key v = (v_poll_id v, v_user_id v)"

definition one_vote_per_voter :: "db \<Rightarrow> bool" where
  "one_vote_per_voter d = distinct (map vote_key (votes d))"

definition vote_rows :: "db \<Rightarrow> nat \<Rightarrow> string \<Rightarrow> vote list" where
  "vote_rows d pid user_id =
     filter (\<lambda>v. v_poll_id v = pid \<and> v_user_id v = user_id) (votes d)"

section \<open>PollScheduler: publishing (bot/scheduler.py)\<close>

text \<open>\<^verbatim>\<open>str(n)\<close> for the identifiers of the platform, which are natural numbers.\<close>

fun str_nat :: "nat \<Rightarrow> string" where
  "str_nat n =
     (if n < 10 then [char_of (48 + n)]
      else str_nat (n div 10) @ [char_of (48 + n mod 10)])"

text \<open>The reaction emojis and the fallback option texts of \<open>PollScheduler\<close>, byte for byte
  as the source file has them.\<close>

definition poll_emojis :: "string list" where
  "poll_emojis =
    [[CHR 0xE2, CHR 0x80, CHR 0x9A, CHR 0xC3, CHR 0xBA, CHR 0xC3, CHR 0x96],
     [CHR 0xEF, CHR 0xA3, CHR 0xBF, CHR 0xC3, CHR 0xBC, CHR 0xC3, CHR 0xA5, CHR 0xC3,
      CHR 0x96],
     [CHR 0xE2, CHR 0x80, CHR 0x9A, CHR 0xC3, CHR 0xB2, CHR 0xC3, CHR 0x84, CHR 0xC3,
      CHR 0x94, CHR 0xE2, CHR 0x88, CHR 0x8F, CHR 0xC3, CHR 0xA8],
     [CHR 0xEF, CHR 0xA3, CHR 0xBF, CHR 0xC3, CHR 0xBC, CHR 0xC3, CHR 0xA5, CHR 0xC3,
      CHR 0xB4],
     [CHR 0xEF, CHR 0xA3, CHR 0xBF, CHR 0xC3, CHR 0xBC, CHR 0xC3, CHR 0xA5, CHR 0xC3,
      CHR 0x89],
     [CHR 0xEF, CHR 0xA3, CHR 0xBF, CHR 0xC3, CHR 0xBC, CHR 0xC2, CHR 0xA7, CHR 0xC3,
      CHR 0xAE],
     [CHR 0xE2, CHR 0x80, CHR 0x9A, CHR 0xC3, CHR 0xB9, CHR 0xC3, CHR 0xA5]]"

definition default_poll_options :: "string list" where
  "default_poll_options =
    [[CHR 0xE2, CHR 0x80, CHR 0x9A, CHR 0xC3, CHR 0xBA, CHR 0xC3, CHR 0x96] @
      '' Available all day'',
     [CHR 0xEF, CHR 0xA3, CHR 0xBF, CHR 0xC3, CHR 0xBC, CHR 0xC3, CHR 0xA5, CHR 0xC3,
      CHR 0x96] @ '' Available morning (9 AM - 12 PM)'',
     [CHR 0xE2, CHR 0x80, CHR 0x9A, CHR 0xC3, CHR 0xB2, CHR 0xC3, CHR 0x84, CHR 0xC3,
      CHR 0x94, CHR 0xE2, CHR 0x88, CHR 0x8F, CHR 0xC3, CHR 0xA8] @
      '' Available afternoon (12 PM - 6 PM)'',
     [CHR 0xEF, CHR 0xA3, CHR 0xBF, CHR 0xC3, CHR 0xBC, CHR 0xC3, CHR 0xA5, CHR 0xC3,
      CHR 0xB4] @ '' Available evening (6 PM - 11 PM)'',
     [CHR 0xEF, CHR 0xA3, CHR 0xBF, CHR 0xC3, CHR 0xBC, CHR 0xC3, CHR 0xA5, CHR 0xC3,
      CHR 0x89] @ '' Available late night (11 PM+)'',
     [CHR 0xEF, CHR 0xA3, CHR 0xBF, CHR 0xC3, CHR 0xBC, CHR 0xC2, CHR 0xA7, CHR 0xC3,
      CHR 0xAE] @ '' Not sure'',
     [CHR 0xE2, CHR 0x80, CHR 0x9A, CHR 0xC3, CHR 0xB9, CHR 0xC3, CHR 0xA5] @
      '' Not available'']"

text \<open>The word in front of the date in \<open>poll_date\<close>.\<close>

definition tomorrow_prefix :: string where
  "tomorrow_prefix =
     [CHR 0xE2, CHR 0x80, CHR 0x94, CHR 0xC3, CHR 0x89, CHR 0xE2, CHR 0x80, CHR 0x94,
      CHR 0xC3, CHR 0x87, CHR 0xE2, CHR 0x80, CHR 0x94, CHR 0xC3, CHR 0x84, CHR 0xE2,
      CHR 0x80, CHR 0x93, CHR 0xC2, CHR 0xB5, CHR 0x20]"

text \<open>The entry of \<open>active_polls\<close> for one poll message.  The daily poll's dictionary has
  no key \<open>is_test\<close>.\<close>

record poll_info =
  pi_poll_message_id :: nat
  pi_vote_message_id :: nat
  pi_channel_id :: nat
  pi_guild_id :: string
  pi_poll_options :: "string list"
  pi_emojis :: "string list"
  pi_is_test :: "bool option"
  pi_poll_date :: string

text \<open>
  The bot: its configuration manager, its database manager, the dictionary
  \<open>active_polls\<close> (\<open>None\<close> while the attribute does not exist), the log of the modules
  \<open>main\<close> and \<open>scheduler\<close>, and a trace of what it asked of the platform: the messages it
  asked to delete, the messages it deleted, the messages it sent (channel and message),
  the reactions it attached, and the poll bodies it rendered into messages.
\<close>

record bot =
  config_manager :: config_manager
  database_manager :: db
  active_polls :: "(nat \<rightharpoonup> poll_info) option"
  bot_log :: "log_entry list"
  delete_requests :: "nat list"
  deleted_messages :: "nat list"
  sent_messages :: "(nat \<times> nat) list"
  reactions_added :: "(nat \<times> string) list"
  rendered :: "(nat \<times> (string \<times> string \<times> string list) list) list"

definition log_bot :: "level \<Rightarrow> string \<Rightarrow> bot \<Rightarrow> bot" where
  "log_bot lv msg b = b\<lparr>bot_log := bot_log b @ [(lv, msg)]\<rparr>"

text \<open>
  What the platform, the store, the file system and the clock answer during one publish:
  the guild's name if \<^verbatim>\<open>get_guild\<close> finds it, the channel if \<^verbatim>\<open>get_channel\<close> finds it,
  the outcome of fetching and deleting the oldest message, the outcome of \<^verbatim>\<open>channel.send\<close>
  (the new message's id), the outcome of \<^verbatim>\<open>add_reaction\<close> for each emoji slot, whether
  the store fails, whether the configuration file can be written, the time, and the
  formatted date of tomorrow.  Guild and channel identifiers are decimal strings.
\<close>

record publish_env =
  pe_guild :: "string option"
  pe_channel :: "nat option"
  pe_delete :: "unit outcome"
  pe_send :: "nat outcome"
  pe_react :: "nat \<Rightarrow> unit outcome"
  pe_db_fault :: bool
  pe_write_ok :: bool
  pe_now :: int
  pe_date :: string

text \<open>Attaching the reactions: an \<open>HTTPException\<close> is logged and the loop goes on.\<close>

fun add_reactions :: "(nat \<Rightarrow> unit outcome) \<Rightarrow> nat \<Rightarrow> nat list \<Rightarrow> bot \<Rightarrow> unit outcome \<times> bot" where
  "add_reactions react message_id [] b = (Return (), b)"
| "add_reactions react message_id (i # rest) b =
     (case react i of
        Return u \<Rightarrow>
          add_reactions react message_id rest
            (b\<lparr>reactions_added := reactions_added b @ [(message_id, poll_emojis ! i)]\<rparr>)
      | Raise e \<Rightarrow>
          if is_http e
          then add_reactions react message_id rest (log_bot WARNING ''Failed to add reaction'' b)
          else (Raise e, b))"

text \<open>
  Retention in \<open>post_daily_poll\<close>.  \<open>poll_history\<close> is the list object stored in the
  guild's configuration, so \<^verbatim>\<open>pop(0)\<close> changes the configuration in memory at once.  The
  result is the bot and the history after the step.
\<close>

definition cleanup_old_polls ::
  "bot \<Rightarrow> publish_env \<Rightarrow> string \<Rightarrow> config \<Rightarrow> (config \<times> nat list) outcome \<times> bot" where
  "cleanup_old_polls b env guild_id cfg =
     (let poll_history = get_or (cfg_poll_history cfg) [] in
      if length poll_history \<ge> 2 then
        let oldest_poll_id = poll_history ! 0;
            b1 = b\<lparr>delete_requests := delete_requests b @ [oldest_poll_id]\<rparr>;
            popped = cfg\<lparr>cfg_poll_history := Some (tl poll_history)\<rparr>;
            pop = (\<lambda>b'. b'\<lparr>config_manager := (config_manager b')
                     \<lparr>configs := (configs (config_manager b'))(guild_id \<mapsto> popped)\<rparr>\<rparr>)
        in case pe_delete env of
             Return u \<Rightarrow>
               (Return (popped, tl poll_history),
                pop (log_bot INFO ''Deleted old poll message''
                  (b1\<lparr>deleted_messages := deleted_messages b1 @ [oldest_poll_id]\<rparr>)))
           | Raise e \<Rightarrow>
               if e = NotFound
               then (Return (popped, tl poll_history),
                     pop (log_bot INFO ''Old poll message already deleted'' b1))
               else if is_http e
               then (Return (popped, tl poll_history),
                     pop (log_bot WARNING ''Failed to delete old poll'' b1))
               else (Raise e, b1)
      else (Return (cfg, poll_history), b))"

text \<open>Registering the poll for reaction tracking.\<close>

definition register_poll :: "bot \<Rightarrow> nat \<Rightarrow> poll_info \<Rightarrow> bot" where
  "register_poll b message_id info =
     b\<lparr>active_polls := Some ((get_or (active_polls b) Map.empty)(message_id \<mapsto> info))\<rparr>"

text \<open>
  From \<^verbatim>\<open>channel.send\<close> to the end of the \<^verbatim>\<open>try\<close> block of \<open>post_daily_poll\<close>.
\<close>

definition send_daily_poll ::
  "bot \<Rightarrow> publish_env \<Rightarrow> string \<Rightarrow> nat \<Rightarrow> config \<Rightarrow> string list \<Rightarrow> nat list
     \<Rightarrow> unit outcome \<times> bot" where
  "send_daily_poll b env guild_id channel cfg poll_options poll_history =
     (case pe_send env of
        Raise e \<Rightarrow> (Raise e, b)
      | Return message_id \<Rightarrow>
         (case add_reactions (pe_react env) message_id [0..<length (take 7 poll_options)]
                 (b\<lparr>sent_messages := sent_messages b @ [(channel, message_id)]\<rparr>) of
            (Raise e, b1) \<Rightarrow> (Raise e, b1)
          | (Return u, b1) \<Rightarrow>
             (let info = \<lparr>pi_poll_message_id = message_id, pi_vote_message_id = message_id,
                           pi_channel_id = channel, pi_guild_id = guild_id,
                           pi_poll_options = take 7 poll_options,
                           pi_emojis = take 7 poll_emojis, pi_is_test = None,
                           pi_poll_date = tomorrow_prefix @ pe_date env\<rparr>;
                  cfg1 = cfg\<lparr>cfg_poll_history := Some (poll_history @ [message_id])\<rparr>;
                  b2 = b1\<lparr>config_manager :=
                         save_configs
                           ((config_manager b1)
                              \<lparr>configs := (configs (config_manager b1))(guild_id \<mapsto> cfg1)\<rparr>)
                           (pe_write_ok env)\<rparr>
              in case create_poll (database_manager b2) (pe_db_fault env) (pe_now env)
                        guild_id (str_nat channel) (str_nat message_id) (pe_date env) False of
                   (Raise e, d) \<Rightarrow> (Raise e, b2\<lparr>database_manager := d\<rparr>)
                 | (Return poll_db_id, d) \<Rightarrow>
                     (Return (),
                      log_bot INFO ''Created poll record in database''
                        (log_bot INFO ''Posted daily poll''
                          (register_poll (b2\<lparr>database_manager := d\<rparr>) message_id info))))))"

text \<open>The \<^verbatim>\<open>try\<close> block of \<open>post_daily_poll\<close>.\<close>

definition post_daily_poll_body :: "bot \<Rightarrow> publish_env \<Rightarrow> string \<Rightarrow> unit outcome \<times> bot" where
  "post_daily_poll_body b env guild_id =
     (case pe_guild env of
        None \<Rightarrow> (Return (), log_bot ERROR ''Guild not found'' b)
      | Some guild_name \<Rightarrow>
         (let (cfg, cm) = get_guild_config (config_manager b) (pe_write_ok env) guild_id;
              b1 = b\<lparr>config_manager := cm\<rparr>
          in if \<not> get_or (cfg_enabled cfg) False
             then (Return (), log_bot INFO ''Polls disabled for guild'' b1)
             else if get_or (cfg_channel_id cfg) [] = []
             then (Return (), log_bot ERROR ''No channel configured for guild'' b1)
             else case pe_channel env of
                    None \<Rightarrow> (Return (), log_bot ERROR ''Channel not found in guild'' b1)
                  | Some channel \<Rightarrow>
                     (let poll_options = get_or (cfg_poll_options cfg) default_poll_options
                      in case cleanup_old_polls b1 env guild_id cfg of
                           (Raise e, b2) \<Rightarrow> (Raise e, b2)
                         | (Return (cfg1, poll_history), b2) \<Rightarrow>
                             send_daily_poll b2 env guild_id channel cfg1 poll_options
                               poll_history)))"

text \<open>\<open>post_daily_poll\<close>: both \<^verbatim>\<open>except\<close> clauses log and return.\<close>

definition post_daily_poll :: "bot \<Rightarrow> publish_env \<Rightarrow> string \<Rightarrow> unit outcome \<times> bot" where
  "post_daily_poll b env guild_id =
     (case post_daily_poll_body b env guild_id of
        (Return u, b') \<Rightarrow> (Return u, b')
      | (Raise e, b') \<Rightarrow>
          if e = Forbidden
          then (Return (), log_bot ERROR ''No permission to send messages in guild'' b')
          else (Return (), log_bot ERROR ''Failed to post daily poll for guild'' b'))"

text \<open>The channel a test poll is posted in, with the guild it belongs to.\<close>

record channel =
  ch_id :: nat
  ch_guild_id :: nat

definition post_test_poll_body ::
  "bot \<Rightarrow> publish_env \<Rightarrow> channel \<Rightarrow> config \<Rightarrow> nat outcome \<times> bot" where
  "post_test_poll_body b env ch cfg =
     (let poll_options = get_or (cfg_poll_options cfg) default_poll_options in
      case pe_send env of
        Raise e \<Rightarrow> (Raise e, b)
      | Return message_id \<Rightarrow>
         (case add_reactions (pe_react env) message_id [0..<length (take 7 poll_options)]
                 (b\<lparr>sent_messages := sent_messages b @ [(ch_id ch, message_id)]\<rparr>) of
            (Raise e, b1) \<Rightarrow> (Raise e, b1)
          | (Return u, b1) \<Rightarrow>
             (let info = \<lparr>pi_poll_message_id = message_id, pi_vote_message_id = message_id,
                           pi_channel_id = ch_id ch, pi_guild_id = str_nat (ch_guild_id ch),
                           pi_poll_options = take 7 poll_options,
                           pi_emojis = take 7 poll_emojis, pi_is_test = Some True,
                           pi_poll_date = tomorrow_prefix @ pe_date env\<rparr>
              in case create_poll (database_manager b1) (pe_db_fault env) (pe_now env)
                        (str_nat (ch_guild_id ch)) (str_nat (ch_id ch)) (str_nat message_id)
                        (pe_date env) True of
                   (Raise e, d) \<Rightarrow> (Raise e, b1\<lparr>database_manager := d\<rparr>)
                 | (Return poll_db_id, d) \<Rightarrow>
                     (Return message_id,
                      log_bot INFO ''Created test poll record in database''
                        (register_poll (b1\<lparr>database_manager := d\<rparr>) message_id info)))))"

text \<open>\<open>post_test_poll\<close>: the \<^verbatim>\<open>except\<close> clause logs and raises again.\<close>

definition post_test_poll ::
  "bot \<Rightarrow> publish_env \<Rightarrow> channel \<Rightarrow> config \<Rightarrow> nat outcome \<times> bot" where
  "post_test_poll b env ch cfg =
     (case post_test_poll_body b env ch cfg of
        (Return message_id, b') \<Rightarrow> (Return message_id, b')
      | (Raise e, b') \<Rightarrow> (Raise e, log_bot ERROR ''Failed to post test poll'' b'))"

section \<open>Reaction events (main.py)\<close>

record user =
  u_id :: nat
  u_name :: string
  u_display_name :: "string option"
  u_bot :: bool

text \<open>A message with its reactions: for each reaction its emoji and the users that
  \<^verbatim>\<open>reaction.users()\<close> yields.\<close>

record message =
  m_id :: nat
  m_reactions :: "(string \<times> user list) list"

text \<open>The innermost loop of \<open>update_poll_results\<close>: one \<open>save_vote\<close> for each user of a
  reaction who is not a bot.\<close>

fun save_reaction_users ::
  "db \<Rightarrow> bool \<Rightarrow> int \<Rightarrow> string \<Rightarrow> string \<Rightarrow> user list \<Rightarrow> unit outcome \<times> db" where
  "save_reaction_users d fault now message_id emoji [] = (Return (), d)"
| "save_reaction_users d fault now message_id emoji (u # us) =
     (if \<not> u_bot u
      then case save_vote d fault now message_id (str_nat (u_id u)) (u_name u)
                  (get_or (u_display_name u) (u_name u)) emoji of
             (Return r, d') \<Rightarrow> save_reaction_users d' fault now message_id emoji us
           | (Raise e, d') \<Rightarrow> (Raise e, d')
      else save_reaction_users d fault now message_id emoji us)"

text \<open>The loop over \<open>poll_info['emojis']\<close>: the first reaction of the message with that
  emoji is synchronised, then the inner loop breaks.\<close>

fun sync_reactions ::
  "db \<Rightarrow> bool \<Rightarrow> int \<Rightarrow> message \<Rightarrow> string list \<Rightarrow> unit outcome \<times> db" where
  "sync_reactions d fault now msg [] = (Return (), d)"
| "sync_reactions d fault now msg (emoji # emojis) =
     (case find (\<lambda>reaction. fst reaction = emoji) (m_reactions msg) of
        None \<Rightarrow> sync_reactions d fault now msg emojis
      | Some reaction \<Rightarrow>
         (case save_reaction_users d fault now (str_nat (m_id msg)) emoji (snd reaction) of
            (Return r, d') \<Rightarrow> sync_reactions d' fault now msg emojis
          | (Raise e, d') \<Rightarrow> (Raise e, d')))"

text \<open>The rows of the rendered poll: each option with its emoji and its voters.  An
  option without an emoji at its index is an \<open>IndexError\<close>.\<close>

fun render_options ::
  "(string \<times> string list) list \<Rightarrow> string list \<Rightarrow> string list
     \<Rightarrow> (string \<times> string \<times> string list) list outcome" where
  "render_options vote_results [] emojis = Return []"
| "render_options vote_results (option # opts) [] = Raise IndexError"
| "render_options vote_results (option # opts) (emoji # emojis) =
     (case render_options vote_results opts emojis of
        Raise e \<Rightarrow> Raise e
      | Return rows \<Rightarrow>
          Return ((emoji, option, get_or (map_of vote_results emoji) []) # rows))"

text \<open>\<open>update_poll_results\<close>; \<open>edit\<close> is the outcome of \<^verbatim>\<open>poll_message.edit\<close>.  Every
  exception ends in the log.\<close>

definition update_poll_results ::
  "bot \<Rightarrow> bool \<Rightarrow> int \<Rightarrow> unit outcome \<Rightarrow> message \<Rightarrow> poll_info \<Rightarrow> bot" where
  "update_poll_results b fault now edit msg info =
     (let (vote_results0, d0) = get_poll_votes (database_manager b) fault (str_nat (m_id msg))
      in case sync_reactions d0 fault now msg (pi_emojis info) of
           (Raise e, d1) \<Rightarrow>
             log_bot ERROR ''Failed to update poll results'' (b\<lparr>database_manager := d1\<rparr>)
         | (Return r, d1) \<Rightarrow>
            (let (vote_results, d2) = get_poll_votes d1 fault (str_nat (m_id msg)) in
             case render_options vote_results (pi_poll_options info) (pi_emojis info) of
               Raise e \<Rightarrow>
                 log_bot ERROR ''Failed to update poll results'' (b\<lparr>database_manager := d2\<rparr>)
             | Return rows \<Rightarrow>
                (case edit of
                   Raise e \<Rightarrow>
                     log_bot ERROR ''Failed to update poll results''
                       (b\<lparr>database_manager := d2\<rparr>)
                 | Return u \<Rightarrow>
                     b\<lparr>database_manager := d2,
                        rendered := rendered b @ [(m_id msg, rows)]\<rparr>)))"

text \<open>What \<open>on_reaction_add\<close> and \<open>on_reaction_remove\<close> share once the message is known to
  be a tracked poll.\<close>

definition resync_poll ::
  "bot \<Rightarrow> bool \<Rightarrow> int \<Rightarrow> unit outcome \<Rightarrow> message \<Rightarrow> user \<Rightarrow> poll_info \<Rightarrow> bot" where
  "resync_poll b fault now edit msg usr info =
     update_poll_results
       (b\<lparr>database_manager :=
            remove_vote (database_manager b) fault (str_nat (m_id msg)) (str_nat (u_id usr))\<rparr>)
       fault now edit msg info"

definition on_reaction_add ::
  "bot \<Rightarrow> bool \<Rightarrow> int \<Rightarrow> unit outcome \<Rightarrow> message \<Rightarrow> user \<Rightarrow> bot" where
  "on_reaction_add b fault now edit msg usr =
     (if u_bot usr then b
      else
        let b1 = (if active_polls b = None then b\<lparr>active_polls := Some Map.empty\<rparr> else b)
        in case get_or (active_polls b1) Map.empty (m_id msg) of
             None \<Rightarrow> b1
           | Some info \<Rightarrow> resync_poll b1 fault now edit msg usr info)"

definition on_reaction_remove ::
  "bot \<Rightarrow> bool \<Rightarrow> int \<Rightarrow> unit outcome \<Rightarrow> message \<Rightarrow> user \<Rightarrow> bot" where
  "on_reaction_remove b fault now edit msg usr =
     (if u_bot usr then b
      else case active_polls b of
             None \<Rightarrow> b
           | Some polls_index \<Rightarrow>
              (case polls_index (m_id msg) of
                 None \<Rightarrow> b
               | Some info \<Rightarrow> resync_poll b fault now edit msg usr info))"

text \<open>A reaction event as the platform delivers it: whether the reaction was added or
  removed, the message with its reactions after the change, the user who acted, and
  what the store, the clock and the platform answer while the event is handled.\<close>

record reaction_event =
  ev_added :: bool
  ev_message :: message
  ev_user :: user
  ev_fault :: bool
  ev_now :: int
  ev_edit :: "unit outcome"

definition handle_event :: "bot \<Rightarrow> reaction_event \<Rightarrow> bot" where
  "handle_event b ev =
     (if ev_added ev
      then on_reaction_add b (ev_fault ev) (ev_now ev) (ev_edit ev) (ev_message ev) (ev_user ev)
      else on_reaction_remove b (ev_fault ev) (ev_now ev) (ev_edit ev) (ev_message ev)
             (ev_user ev))"

definition handle_events :: "bot \<Rightarrow> reaction_event list \<Rightarrow> bot" where
  "handle_events b evs = foldl handle_event b evs"

section \<open>Example data\<close>

definition empty_config :: config where
  "empty_config =
     \<lparr>cfg_enabled = None, cfg_channel_id = None, cfg_poll_hour = None,
      cfg_poll_minute = None, cfg_timezone = None, cfg_poll_options = None,
      cfg_poll_emojis = None, cfg_poll_history = None\<rparr>"

text \<open>A guild is saved, a poll is created for message 3, and user 7 votes.\<close>

definition example_ops :: "db_op list" where
  "example_ops =
     [SaveServerConfig False 0 ''1'' empty_config,
      CreatePoll False 1 ''1'' ''2'' ''3'' ''d'' False,
      SaveVote False 2 ''3'' ''7'' ''u'' ''U'' ''a'']"


section \<open>Properties of the vote store\<close>


lemma update_first_map:
  "distinct (map k xs) \<Longrightarrow> (\<And>x. P x \<longleftrightarrow> k x = c) \<Longrightarrow>
   update_first P f xs = map (\<lambda>x. if P x then f x else x) xs"
proof (induction xs)
  case Nil
  then show ?case by simp
next
  case (Cons x xs)
  show ?case
  proof (cases "P x")
    case True
    with Cons.prems have "\<forall>y\<in>set xs. \<not> P y" by (auto simp: image_iff)
    then have "map (\<lambda>x. if P x then f x else x) xs = xs" by (induction xs) auto
    with True show ?thesis by simp
  next
    case False
    with Cons show ?thesis by simp
  qed
qed

lemma map_key_update_first:
  "(\<And>x. k (f x) = k x) \<Longrightarrow> map k (update_first P f xs) = map k xs"
  by (induction xs) auto

lemma length_update_first [simp]: "length (update_first P f xs) = length xs"
  by (induction xs) auto

lemma distinct_map_remove1:
  "distinct (map k xs) \<Longrightarrow> distinct (map k (remove1 x xs))"
proof (induction xs)
  case Nil
  then show ?case by simp
next
  case (Cons a xs)
  have "set (remove1 x xs) \<subseteq> set xs" by (rule set_remove1_subset)
  with Cons show ?case by (auto simp: image_iff)
qed

lemma distinct_map_filter_key:
  "distinct (map k xs) \<Longrightarrow> distinct (map k (filter Q xs))"
  by (rule distinct_map_filter)

lemma votes_log_db [simp]: "votes (log_db lv msg d) = votes d"
  by (simp add: log_db_def)

lemma polls_log_db [simp]: "polls (log_db lv msg d) = polls d"
  by (simp add: log_db_def)

lemma find_vote_None_key:
  "find_vote d pid uid = None \<Longrightarrow> (pid, uid) \<notin> set (map vote_key (votes d))"
  by (auto simp: find_vote_def find_None_iff vote_key_def)

lemma one_vote_save_vote:
  assumes "one_vote_per_voter d"
  shows "one_vote_per_voter (snd (save_vote d fault now mid uid un dn e))"
proof -
  have k: "\<And>v. vote_key (v\<lparr>v_emoji := e, v_updated_at := now, v_display_name := dn\<rparr>) = vote_key v"
    by (simp add: vote_key_def)
  show ?thesis using assms
    by (auto simp: save_vote_def one_vote_per_voter_def map_key_update_first k
         new_vote_def vote_key_def find_vote_def find_None_iff image_iff
         split: option.splits)
qed

lemma one_vote_remove_vote:
  "one_vote_per_voter d \<Longrightarrow> one_vote_per_voter (remove_vote d fault mid uid)"
  by (auto simp: remove_vote_def one_vote_per_voter_def distinct_map_remove1
       split: option.splits)

lemma one_vote_delete_poll:
  "one_vote_per_voter d \<Longrightarrow> one_vote_per_voter (delete_poll d p)"
  by (simp add: delete_poll_def one_vote_per_voter_def distinct_map_filter)

lemma one_vote_foldl_delete_poll:
  "one_vote_per_voter d \<Longrightarrow> one_vote_per_voter (foldl delete_poll d ps)"
  by (induction ps arbitrary: d) (auto simp: one_vote_delete_poll)


lemma one_vote_create_poll:
  assumes "one_vote_per_voter d"
  shows "one_vote_per_voter (snd (create_poll d fault now g c m pd t))"
proof -
  have "\<And>x ps. one_vote_per_voter (foldl delete_poll
          (d\<lparr>polls := polls d @ [x], next_poll_id := Suc (next_poll_id d)\<rparr>) ps)"
    by (rule one_vote_foldl_delete_poll) (use assms in \<open>simp add: one_vote_per_voter_def\<close>)
  then show ?thesis using assms
    by (auto simp: create_poll_def Let_def one_vote_per_voter_def split: option.splits)
qed

lemma one_vote_cleanup:
  "one_vote_per_voter d \<Longrightarrow> one_vote_per_voter (cleanup_old_data d fault now days)"
  using one_vote_foldl_delete_poll[of d]
  by (auto simp: cleanup_old_data_def Let_def one_vote_per_voter_def)

lemma votes_get_or_create_server [simp]: "votes (get_or_create_server d now g) = votes d"
  by (simp add: get_or_create_server_def split: option.splits)

lemma votes_update_server_fields [simp]: "votes (update_server_fields d now g cfg) = votes d"
  by (simp add: update_server_fields_def)

lemma votes_replace_poll_options [simp]:
  "votes (replace_poll_options d now sid opts es) = votes d"
  by (simp add: replace_poll_options_def)


lemma votes_save_server_config [simp]:
  "votes (snd (save_server_config d fault now g cfg)) = votes d"
  by (cases fault; cases "cfg_poll_options cfg")
     (simp_all add: save_server_config_def Let_def)

lemma one_vote_save_server_config:
  "one_vote_per_voter d \<Longrightarrow> one_vote_per_voter (snd (save_server_config d fault now g cfg))"
  by (simp add: one_vote_per_voter_def)

lemma one_vote_apply_op:
  "one_vote_per_voter d \<Longrightarrow> one_vote_per_voter (apply_op d op)"
  by (cases op)
     (simp_all add: one_vote_save_vote one_vote_remove_vote one_vote_create_poll
        one_vote_cleanup one_vote_save_server_config)

lemma one_vote_foldl_apply_op:
  "one_vote_per_voter d \<Longrightarrow> one_vote_per_voter (foldl apply_op d ops)"
  by (induction ops arbitrary: d) (auto simp: one_vote_apply_op)

lemma one_vote_run_ops: "one_vote_per_voter (run_ops ops)"
  unfolding run_ops_def
  by (rule one_vote_foldl_apply_op) (simp add: one_vote_per_voter_def empty_db_def)


lemma find_key_filter:
  "distinct (map k xs) \<Longrightarrow> find (\<lambda>x. k x = c) xs = Some y \<Longrightarrow>
   filter (\<lambda>x. k x = c) xs = [y]"
proof (induction xs)
  case Nil
  then show ?case by simp
next
  case (Cons a xs)
  show ?case
  proof (cases "k a = c")
    case True
    with Cons.prems have "\<forall>x\<in>set xs. k x \<noteq> c" by (auto simp: image_iff)
    then have "filter (\<lambda>x. k x = c) xs = []" by (simp add: filter_empty_conv)
    with True Cons.prems show ?thesis by simp
  next
    case False
    with Cons show ?thesis by simp
  qed
qed

lemma find_key_remove1:
  "distinct (map k xs) \<Longrightarrow> find (\<lambda>x. k x = c) xs = Some y \<Longrightarrow>
   find (\<lambda>x. k x = c) (remove1 y xs) = None"
proof (induction xs)
  case Nil
  then show ?case by simp
next
  case (Cons a xs)
  show ?case
  proof (cases "k a = c")
    case True
    with Cons.prems have "\<forall>x\<in>set xs. k x \<noteq> c" by (auto simp: image_iff)
    with True Cons.prems show ?thesis by (auto simp: find_None_iff)
  next
    case False
    with Cons.prems have "a \<noteq> y" by (auto dest: find_Some_iff[THEN iffD1])
    with False Cons show ?thesis by simp
  qed
qed

lemma filter_map_if:
  "(\<And>x. P (f x) = P x) \<Longrightarrow>
   filter P (map (\<lambda>x. if P x then f x else x) xs) = map f (filter P xs)"
  by (induction xs) auto

lemma vote_key_pred: "(v_poll_id v = pid \<and> v_user_id v = uid) = (vote_key v = (pid, uid))"
  by (auto simp: vote_key_def)

lemma find_vote_key: "find_vote d pid uid = find (\<lambda>v. vote_key v = (pid, uid)) (votes d)"
  by (simp add: find_vote_def vote_key_pred)

lemma vote_rows_key: "vote_rows d pid uid = filter (\<lambda>v. vote_key v = (pid, uid)) (votes d)"
  by (simp add: vote_rows_def vote_key_pred)

lemma save_vote_existing:
  assumes inv: "one_vote_per_voter d"
      and poll: "find_poll d mid = Some poll"
      and old: "find_vote d (p_id poll) uid = Some old"
  shows "votes (snd (save_vote d False now mid uid un dn e)) =
           map (\<lambda>v. if v_poll_id v = p_id poll \<and> v_user_id v = uid
                     then v\<lparr>v_emoji := e, v_updated_at := now, v_display_name := dn\<rparr>
                     else v) (votes d)"
    and "vote_rows (snd (save_vote d False now mid uid un dn e)) (p_id poll) uid =
           [old\<lparr>v_emoji := e, v_updated_at := now, v_display_name := dn\<rparr>]"
proof -
  let ?P = "\<lambda>v. v_poll_id v = p_id poll \<and> v_user_id v = uid"
  let ?f = "\<lambda>v. v\<lparr>v_emoji := e, v_updated_at := now, v_display_name := dn\<rparr>"
  have d: "distinct (map vote_key (votes d))"
    using inv by (simp add: one_vote_per_voter_def)
  have upd: "update_first ?P ?f (votes d) = map (\<lambda>v. if ?P v then ?f v else v) (votes d)"
    by (rule update_first_map[OF d, of _ "(p_id poll, uid)"]) (rule vote_key_pred)
  have sv: "votes (snd (save_vote d False now mid uid un dn e)) = update_first ?P ?f (votes d)"
    using poll old by (simp add: save_vote_def)
  show 1: "votes (snd (save_vote d False now mid uid un dn e)) =
           map (\<lambda>v. if ?P v then ?f v else v) (votes d)"
    using sv upd by simp
  have "filter ?P (votes d) = [old]"
    using find_key_filter[OF d, of "(p_id poll, uid)" old] old
    by (simp add: find_vote_key vote_key_pred)
  moreover have "filter ?P (map (\<lambda>v. if ?P v then ?f v else v) (votes d))
                 = map ?f (filter ?P (votes d))"
    by (rule filter_map_if) simp
  ultimately show "vote_rows (snd (save_vote d False now mid uid un dn e)) (p_id poll) uid =
           [?f old]"
    unfolding vote_rows_def 1 by simp
qed

lemma save_vote_fresh:
  assumes poll: "find_poll d mid = Some poll"
      and old: "find_vote d (p_id poll) uid = None"
  shows "votes (snd (save_vote d False now mid uid un dn e)) =
           votes d @ [new_vote d now (p_id poll) uid un dn e]"
    and "vote_rows (snd (save_vote d False now mid uid un dn e)) (p_id poll) uid =
           [new_vote d now (p_id poll) uid un dn e]"
proof -
  show 1: "votes (snd (save_vote d False now mid uid un dn e)) =
           votes d @ [new_vote d now (p_id poll) uid un dn e]"
    using poll old by (simp add: save_vote_def)
  have "filter (\<lambda>v. v_poll_id v = p_id poll \<and> v_user_id v = uid) (votes d) = []"
    using old by (auto simp: find_vote_def find_None_iff filter_empty_conv)
  then show "vote_rows (snd (save_vote d False now mid uid un dn e)) (p_id poll) uid =
           [new_vote d now (p_id poll) uid un dn e]"
    unfolding vote_rows_def 1 by (simp add: new_vote_def)
qed

text \<open>
  Claim C2.  In every store reached from the empty database by the operations of
  \<open>DatabaseManager\<close>, no two vote rows share their poll and voter.  \<open>save_vote\<close> keeps
  this: for a message with a stored poll, a voter who has a row gets that row's emoji,
  display name and update time overwritten where it stands (the other rows and the number
  of rows stay as they are), and a voter without a row gets exactly one new row, appended.
\<close>

theorem save_vote_one_vote_per_voter:
  assumes poll: "find_poll (run_ops ops) message_id = Some poll"
  shows "one_vote_per_voter (run_ops ops) \<and>
     one_vote_per_voter
       (snd (save_vote (run_ops ops) fault now message_id user_id username display_name emoji)) \<and>
     (case find_vote (run_ops ops) (p_id poll) user_id of
        Some existing_vote \<Rightarrow>
          votes (snd (save_vote (run_ops ops) False now message_id user_id username
                        display_name emoji)) =
            map (\<lambda>v. if v_poll_id v = p_id poll \<and> v_user_id v = user_id
                      then v\<lparr>v_emoji := emoji, v_updated_at := now,
                             v_display_name := display_name\<rparr>
                      else v) (votes (run_ops ops)) \<and>
          vote_rows (snd (save_vote (run_ops ops) False now message_id user_id username
                        display_name emoji)) (p_id poll) user_id =
            [existing_vote\<lparr>v_emoji := emoji, v_updated_at := now,
                           v_display_name := display_name\<rparr>]
      | None \<Rightarrow>
          votes (snd (save_vote (run_ops ops) False now message_id user_id username
                        display_name emoji)) =
            votes (run_ops ops) @
              [new_vote (run_ops ops) now (p_id poll) user_id username display_name emoji] \<and>
          vote_rows (snd (save_vote (run_ops ops) False now message_id user_id username
                        display_name emoji)) (p_id poll) user_id =
            [new_vote (run_ops ops) now (p_id poll) user_id username display_name emoji])"
proof -
  have inv: "one_vote_per_voter (run_ops ops)" by (rule one_vote_run_ops)
  show ?thesis
  proof (cases "find_vote (run_ops ops) (p_id poll) user_id")
    case None
    then show ?thesis
      using inv one_vote_save_vote[OF inv] save_vote_fresh[OF poll None] by simp
  next
    case (Some old)
    then show ?thesis
      using inv one_vote_save_vote[OF inv] save_vote_existing[OF inv poll Some] by simp
  qed
qed

lemma example_db_value: "run_ops example_ops =
  \<lparr>servers =
    [\<lparr>sc_id = 1, sc_guild_id = ''1'', sc_enabled = False,
        sc_channel_id = None, sc_poll_hour = 5, sc_poll_minute = 0,
        sc_timezone = ''UTC'', sc_created_at = 0, sc_updated_at = 0\<rparr>],
    options = [],
    polls =
      [\<lparr>p_id = 1, p_server_config_id = 1, p_guild_id = ''1'',
          p_channel_id = ''2'', p_message_id = ''3'', p_poll_date = ''d'',
          p_is_test = False, p_created_at = 1\<rparr>],
    votes =
      [\<lparr>v_id = 1, v_poll_id = 1, v_user_id = ''7'', v_username = ''u'',
          v_display_name = ''U'', v_emoji = ''a'', v_voted_at = 2,
          v_updated_at = 2\<rparr>],
    next_server_id = 2, next_option_id = 1, next_poll_id = 2,
    next_vote_id = 2,
    db_log =
      [(DEBUG, ''Saved config for server''), (INFO, ''Created poll''),
       (DEBUG, ''Created new vote'')]\<rparr>"
  by (simp add: example_ops_def empty_config_def run_ops_def empty_db_def
    save_server_config_def get_or_create_server_def
    update_server_fields_def find_server_def create_poll_def find_poll_def save_vote_def
    find_vote_def new_vote_def log_db_def Let_def get_or_def delete_poll_def)

theorem save_vote_one_vote_per_voter_witness:
  "find_poll (run_ops example_ops) ''3'' =
     Some \<lparr>p_id = 1, p_server_config_id = 1, p_guild_id = ''1'',
          p_channel_id = ''2'', p_message_id = ''3'', p_poll_date = ''d'',
          p_is_test = False, p_created_at = 1\<rparr> \<and>
   one_vote_per_voter (run_ops example_ops) \<and>
   votes (snd (save_vote (run_ops example_ops) False 5 ''3'' ''7'' ''u'' ''V'' ''b'')) =
     [\<lparr>v_id = 1, v_poll_id = 1, v_user_id = ''7'', v_username = ''u'',
       v_display_name = ''V'', v_emoji = ''b'', v_voted_at = 2, v_updated_at = 5\<rparr>]"
proof -
  have h: "find_poll (run_ops example_ops) ''3'' =
     Some \<lparr>p_id = 1, p_server_config_id = 1, p_guild_id = ''1'',
          p_channel_id = ''2'', p_message_id = ''3'', p_poll_date = ''d'',
          p_is_test = False, p_created_at = 1\<rparr>"
    by (simp add: example_db_value find_poll_def)
  have v: "find_vote (run_ops example_ops) (Suc 0) ''7'' =
     Some \<lparr>v_id = 1, v_poll_id = 1, v_user_id = ''7'', v_username = ''u'',
          v_display_name = ''U'', v_emoji = ''a'', v_voted_at = 2, v_updated_at = 2\<rparr>"
    by (simp add: example_db_value find_vote_def)
  have vs: "votes (run_ops example_ops) =
     [\<lparr>v_id = 1, v_poll_id = 1, v_user_id = ''7'', v_username = ''u'',
          v_display_name = ''U'', v_emoji = ''a'', v_voted_at = 2, v_updated_at = 2\<rparr>]"
    by (simp add: example_db_value)
  from save_vote_one_vote_per_voter[OF h, of False 5 "''7''" "''u''" "''V''" "''b''"]
  show ?thesis using h by (simp add: v vs)
qed

lemma remove_vote_twice:
  assumes inv: "one_vote_per_voter d"
  shows "remove_vote (remove_vote d False mid uid) False mid uid = remove_vote d False mid uid"
proof (cases "find_poll d mid")
  case None
  then show ?thesis by (simp add: remove_vote_def)
next
  case (Some poll)
  show ?thesis
  proof (cases "find_vote d (p_id poll) uid")
    case None
    with Some show ?thesis by (simp add: remove_vote_def)
  next
    case (Some v)
    have d: "distinct (map vote_key (votes d))"
      using inv by (simp add: one_vote_per_voter_def)
    let ?d1 = "log_db DEBUG ''Removed vote'' (d\<lparr>votes := remove1 v (votes d)\<rparr>)"
    have r1: "remove_vote d False mid uid = ?d1"
      using \<open>find_poll d mid = Some poll\<close> Some by (simp add: remove_vote_def)
    have p1: "find_poll ?d1 mid = Some poll"
      using \<open>find_poll d mid = Some poll\<close> by (simp add: find_poll_def)
    have v1: "find_vote ?d1 (p_id poll) uid = None"
      using find_key_remove1[OF d, of "(p_id poll, uid)" v] Some
      by (simp add: find_vote_key)
    show ?thesis unfolding r1 using p1 v1 by (simp add: remove_vote_def)
  qed
qed

text \<open>
  Claim C10.  \<open>remove_vote\<close> returns normally on every input (its result is the store,
  not an outcome).  Without a poll row for the message, or without a vote row of the user,
  it leaves the store as it is; a second removal changes nothing any more; and when the
  store fails, \<open>remove_vote\<close> only appends an error line to the log, where \<open>save_vote\<close>
  raises the failure to its caller.
\<close>

theorem remove_vote_total_idempotent:
  "(find_poll d message_id = None \<longrightarrow> remove_vote d False message_id user_id = d) \<and>
   (\<forall>poll. find_poll d message_id = Some poll \<and> find_vote d (p_id poll) user_id = None
      \<longrightarrow> remove_vote d False message_id user_id = d) \<and>
   (one_vote_per_voter d \<longrightarrow>
      remove_vote (remove_vote d False message_id user_id) False message_id user_id
        = remove_vote d False message_id user_id) \<and>
   remove_vote d True message_id user_id = log_db ERROR ''Failed to remove vote'' d \<and>
   votes (remove_vote d True message_id user_id) = votes d \<and>
   polls (remove_vote d True message_id user_id) = polls d \<and>
   fst (save_vote d True now message_id user_id username display_name emoji)
     = Raise SQLAlchemyError"
  using remove_vote_twice[of d message_id user_id]
  by (auto simp: remove_vote_def save_vote_def)

theorem remove_vote_total_idempotent_witness:
  "find_poll (run_ops example_ops) ''9'' = None \<and>
   remove_vote (run_ops example_ops) False ''9'' ''7'' = run_ops example_ops \<and>
   find_poll (run_ops example_ops) ''3'' =
     Some \<lparr>p_id = 1, p_server_config_id = 1, p_guild_id = ''1'',
          p_channel_id = ''2'', p_message_id = ''3'', p_poll_date = ''d'',
          p_is_test = False, p_created_at = 1\<rparr> \<and>
   find_vote (run_ops example_ops) 1 ''8'' = None \<and>
   remove_vote (run_ops example_ops) False ''3'' ''8'' = run_ops example_ops \<and>
   one_vote_per_voter (run_ops example_ops) \<and>
   remove_vote (remove_vote (run_ops example_ops) False ''3'' ''7'') False ''3'' ''7''
     = remove_vote (run_ops example_ops) False ''3'' ''7''"
proof -
  have a: "find_poll (run_ops example_ops) ''9'' = None"
    by (simp add: example_db_value find_poll_def)
  have b: "find_poll (run_ops example_ops) ''3'' =
     Some \<lparr>p_id = 1, p_server_config_id = 1, p_guild_id = ''1'',
          p_channel_id = ''2'', p_message_id = ''3'', p_poll_date = ''d'',
          p_is_test = False, p_created_at = 1\<rparr>"
    by (simp add: example_db_value find_poll_def)
  have c: "find_vote (run_ops example_ops) (Suc 0) ''8'' = None"
    by (simp add: example_db_value find_vote_def)
  have d: "one_vote_per_voter (run_ops example_ops)"
    by (simp add: example_db_value one_vote_per_voter_def)
  from remove_vote_total_idempotent[of "run_ops example_ops" "''9''" "''7''" 0 "''u''" "''U''" "''a''"]
    remove_vote_total_idempotent[of "run_ops example_ops" "''3''" "''8''" 0 "''u''" "''U''" "''a''"]
    remove_vote_total_idempotent[of "run_ops example_ops" "''3''" "''7''" 0 "''u''" "''U''" "''a''"]
  show ?thesis using a b c d by simp
qed


section \<open>Properties of the scheduler\<close>

lemma jobs_log_sched [simp]: "jobs (log_sched lv msg s) = jobs s"
  by (simp add: log_sched_def)

lemma get_job_None_iff: "get_job s jid = None \<longleftrightarrow> (\<forall>j\<in>set (jobs s). job_id j \<noteq> jid)"
  by (auto simp: get_job_def find_None_iff)

lemma jobs_add_job_fresh:
  "get_job s (job_id j) = None \<Longrightarrow> jobs (add_job s j) = jobs s @ [j]"
  by (simp add: add_job_def)

text \<open>Removing the job of an id (when there is one) and adding a job of that id leaves
  the other jobs in place and the new job last.\<close>

lemma jobs_replace:
  "job_id j = jid \<Longrightarrow>
   jobs (add_job (if get_job s jid \<noteq> None then remove_job s jid else s) j)
     = filter (\<lambda>k. job_id k \<noteq> jid) (jobs s) @ [j]"
proof (cases "get_job s jid")
  case None
  assume j: "job_id j = jid"
  from None have "filter (\<lambda>k. job_id k \<noteq> jid) (jobs s) = jobs s"
    by (auto simp: get_job_None_iff filter_id_conv)
  with None j show ?thesis by (simp add: jobs_add_job_fresh)
next
  case (Some k)
  assume j: "job_id j = jid"
  have "get_job (remove_job s jid) (job_id j) = None"
    using j by (simp add: get_job_None_iff remove_job_def)
  with Some j show ?thesis by (simp add: jobs_add_job_fresh) (simp add: remove_job_def)
qed

lemma jobs_add_after_remove:
  "job_id j = jid \<Longrightarrow>
   jobs (add_job (remove_job s jid) j) = filter (\<lambda>k. job_id k \<noteq> jid) (jobs s) @ [j]"
proof -
  assume j: "job_id j = jid"
  have "get_job (remove_job s jid) (job_id j) = None"
    using j by (simp add: get_job_None_iff remove_job_def)
  then show ?thesis by (simp add: jobs_add_job_fresh) (simp add: remove_job_def)
qed

lemma jobs_add_no_job:
  "job_id j = jid \<Longrightarrow> get_job s jid = None \<Longrightarrow>
   jobs (add_job s j) = filter (\<lambda>k. job_id k \<noteq> jid) (jobs s) @ [j]"
proof -
  assume j: "job_id j = jid" and n: "get_job s jid = None"
  from n have "filter (\<lambda>k. job_id k \<noteq> jid) (jobs s) = jobs s"
    by (auto simp: get_job_None_iff filter_id_conv)
  with n j show ?thesis by (simp add: jobs_add_job_fresh)
qed

lemma daily_job_id_inj [simp]: "daily_job_id g = daily_job_id g' \<longleftrightarrow> g = g'"
  by (simp add: daily_job_id_def)

lemma schedule_body_ok:
  assumes "get_or (cfg_timezone cfg) ''UTC'' \<in> set known_zones"
      and "0 \<le> get_or (cfg_poll_hour cfg) 20" and "get_or (cfg_poll_hour cfg) 20 \<le> 23"
      and "0 \<le> get_or (cfg_poll_minute cfg) 0" and "get_or (cfg_poll_minute cfg) 0 \<le> 59"
  shows "jobs (snd (schedule_guild_poll s known_zones guild_id cfg)) =
           filter (\<lambda>k. job_id k \<noteq> daily_job_id guild_id) (jobs s) @
           [\<lparr>job_id = daily_job_id guild_id,
             job_trigger = \<lparr>tr_hour = get_or (cfg_poll_hour cfg) 20,
                             tr_minute = get_or (cfg_poll_minute cfg) 0,
                             tr_timezone = get_or (cfg_timezone cfg) ''UTC''\<rparr>,
             job_args = guild_id\<rparr>]"
  using assms
  by (simp add: schedule_guild_poll_def schedule_guild_poll_body_def pytz_timezone_def
        CronTrigger_def Let_def jobs_add_after_remove jobs_add_no_job)

lemma schedule_returns: "fst (schedule_guild_poll s known_zones guild_id cfg) = Return ()"
  by (simp add: schedule_guild_poll_def split: prod.splits outcome.splits)

lemma schedule_cron_invalid:
  assumes "\<not> (0 \<le> get_or (cfg_poll_hour cfg) 20 \<and> get_or (cfg_poll_hour cfg) 20 \<le> 23 \<and>
             0 \<le> get_or (cfg_poll_minute cfg) 0 \<and> get_or (cfg_poll_minute cfg) 0 \<le> 59)"
  shows "jobs (snd (schedule_guild_poll s known_zones guild_id cfg)) = jobs s"
  using assms
  by (auto simp: schedule_guild_poll_def schedule_guild_poll_body_def pytz_timezone_def
        CronTrigger_def Let_def)

lemma schedule_unknown_zone:
  assumes "get_or (cfg_timezone cfg) ''UTC'' \<notin> set known_zones"
  shows "schedule_guild_poll_body s known_zones guild_id cfg = (Raise UnknownTimeZoneError, s)"
    and "schedule_guild_poll s known_zones guild_id cfg =
           (Return (), log_sched ERROR ''Failed to schedule poll for guild'' s)"
  using assms
  by (simp_all add: schedule_guild_poll_def schedule_guild_poll_body_def pytz_timezone_def)

text \<open>
  Claim C4.  With a timezone name that resolves, \<open>schedule_guild_poll\<close> leaves exactly one
  trigger for the guild: when the hour and minute are a time of day, that one trigger is
  the new one, whatever was scheduled before, and scheduling a second time again leaves
  exactly one, the newest; a guild that had one trigger has one afterwards in every case.
  The triggers of the other guilds are not touched.
\<close>

theorem schedule_guild_poll_one_trigger:
  assumes zone: "get_or (cfg_timezone cfg) ''UTC'' \<in> set known_zones"
      and zone': "get_or (cfg_timezone cfg') ''UTC'' \<in> set known_zones"
  shows
   "(0 \<le> get_or (cfg_poll_hour cfg) 20 \<and> get_or (cfg_poll_hour cfg) 20 \<le> 23 \<and>
     0 \<le> get_or (cfg_poll_minute cfg) 0 \<and> get_or (cfg_poll_minute cfg) 0 \<le> 59 \<longrightarrow>
       map job_trigger (triggers_of (snd (schedule_guild_poll s known_zones guild_id cfg)) guild_id)
         = [\<lparr>tr_hour = get_or (cfg_poll_hour cfg) 20,
             tr_minute = get_or (cfg_poll_minute cfg) 0,
             tr_timezone = get_or (cfg_timezone cfg) ''UTC''\<rparr>] \<and>
       (0 \<le> get_or (cfg_poll_hour cfg') 20 \<and> get_or (cfg_poll_hour cfg') 20 \<le> 23 \<and>
        0 \<le> get_or (cfg_poll_minute cfg') 0 \<and> get_or (cfg_poll_minute cfg') 0 \<le> 59 \<longrightarrow>
          map job_trigger
            (triggers_of
               (snd (schedule_guild_poll (snd (schedule_guild_poll s known_zones guild_id cfg))
                       known_zones guild_id cfg')) guild_id)
            = [\<lparr>tr_hour = get_or (cfg_poll_hour cfg') 20,
                tr_minute = get_or (cfg_poll_minute cfg') 0,
                tr_timezone = get_or (cfg_timezone cfg') ''UTC''\<rparr>])) \<and>
    (length (triggers_of s guild_id) = 1 \<longrightarrow>
       length (triggers_of (snd (schedule_guild_poll s known_zones guild_id cfg)) guild_id) = 1 \<and>
       length (triggers_of
                 (snd (schedule_guild_poll (snd (schedule_guild_poll s known_zones guild_id cfg))
                         known_zones guild_id cfg')) guild_id) = 1) \<and>
    (\<forall>g. g \<noteq> guild_id \<longrightarrow>
       triggers_of (snd (schedule_guild_poll s known_zones guild_id cfg)) g = triggers_of s g)"
proof -
  let ?ok = "\<lambda>c. 0 \<le> get_or (cfg_poll_hour c) 20 \<and> get_or (cfg_poll_hour c) 20 \<le> 23 \<and>
             0 \<le> get_or (cfg_poll_minute c) 0 \<and> get_or (cfg_poll_minute c) 0 \<le> 59"
  have one: "length (triggers_of (snd (schedule_guild_poll t known_zones guild_id c)) guild_id) = 1"
    if "get_or (cfg_timezone c) ''UTC'' \<in> set known_zones" "length (triggers_of t guild_id) = 1"
    for t c
  proof (cases "?ok c")
    case True
    with that(1) show ?thesis by (simp add: schedule_body_ok triggers_of_def)
  next
    case False
    then show ?thesis using that(2) by (simp add: schedule_cron_invalid triggers_of_def)
  qed
  have new: "map job_trigger (triggers_of (snd (schedule_guild_poll t known_zones guild_id c)) guild_id)
         = [\<lparr>tr_hour = get_or (cfg_poll_hour c) 20,
             tr_minute = get_or (cfg_poll_minute c) 0,
             tr_timezone = get_or (cfg_timezone c) ''UTC''\<rparr>]"
    if "get_or (cfg_timezone c) ''UTC'' \<in> set known_zones" "?ok c" for t c
    using that by (simp add: schedule_body_ok triggers_of_def)
  have other: "triggers_of (snd (schedule_guild_poll s known_zones guild_id cfg)) g = triggers_of s g"
    if "g \<noteq> guild_id" for g
  proof (cases "?ok cfg")
    case True
    have "filter (\<lambda>j. job_id j = daily_job_id g)
            (filter (\<lambda>k. job_id k \<noteq> daily_job_id guild_id) (jobs s))
          = filter (\<lambda>j. job_id j = daily_job_id g) (jobs s)"
      using that by (auto intro: filter_cong)
    with True zone that show ?thesis by (simp add: schedule_body_ok triggers_of_def)
  next
    case False
    then show ?thesis by (simp add: schedule_cron_invalid triggers_of_def)
  qed
  show ?thesis
    using new[OF zone] new[OF zone'] one[OF zone] one[OF zone'] other by simp
qed

theorem schedule_guild_poll_one_trigger_witness:
  "map job_trigger
     (triggers_of
        (snd (schedule_guild_poll
                (snd (schedule_guild_poll \<lparr>jobs = [], sched_log = []\<rparr> [''UTC''] ''1''
                        (empty_config\<lparr>cfg_poll_hour := Some 8\<rparr>)))
                [''UTC''] ''1'' (empty_config\<lparr>cfg_poll_hour := Some 9\<rparr>))) ''1'')
     = [\<lparr>tr_hour = 9, tr_minute = 0, tr_timezone = ''UTC''\<rparr>]"
  using schedule_guild_poll_one_trigger[of "empty_config\<lparr>cfg_poll_hour := Some 8\<rparr>" "[''UTC'']"
          "empty_config\<lparr>cfg_poll_hour := Some 9\<rparr>"
          "\<lparr>jobs = [], sched_log = []\<rparr>" "''1''"]
  by (simp add: empty_config_def get_or_def)

text \<open>
  Claim C5, as amended.  With a timezone name that does not resolve, the body of
  \<open>schedule_guild_poll\<close> raises \<open>UnknownTimeZoneError\<close> before it touches the job store,
  and \<open>schedule_guild_poll\<close> itself catches it: it returns normally with one error line
  in the log, and the jobs (so the guild's earlier trigger, if any) are as before.
\<close>

theorem schedule_guild_poll_unknown_zone:
  assumes "get_or (cfg_timezone cfg) ''UTC'' \<notin> set known_zones"
  shows "schedule_guild_poll_body s known_zones guild_id cfg = (Raise UnknownTimeZoneError, s) \<and>
         schedule_guild_poll s known_zones guild_id cfg =
           (Return (), log_sched ERROR ''Failed to schedule poll for guild'' s) \<and>
         jobs (snd (schedule_guild_poll s known_zones guild_id cfg)) = jobs s"
  using schedule_unknown_zone[OF assms] by simp

theorem schedule_guild_poll_unknown_zone_witness:
  "get_or (cfg_timezone (empty_config\<lparr>cfg_timezone := Some ''Mars/Base''\<rparr>)) ''UTC''
     \<notin> set [''UTC''] \<and>
   schedule_guild_poll \<lparr>jobs = [], sched_log = []\<rparr> [''UTC''] ''1''
       (empty_config\<lparr>cfg_timezone := Some ''Mars/Base''\<rparr>)
     = (Return (), \<lparr>jobs = [], sched_log = [(ERROR, ''Failed to schedule poll for guild'')]\<rparr>)"
proof -
  have h: "get_or (cfg_timezone (empty_config\<lparr>cfg_timezone := Some ''Mars/Base''\<rparr>)) ''UTC''
     \<notin> set [''UTC'']"
    by (simp add: get_or_def)
  from schedule_guild_poll_unknown_zone[OF h, of "\<lparr>jobs = [], sched_log = []\<rparr>" "''1''"]
  show ?thesis using h by (simp add: log_sched_def)
qed

text \<open>
  Claim C5 as stated fails: called with an unknown timezone, \<open>schedule_guild_poll\<close> does
  not raise to its caller.
\<close>

theorem schedule_guild_poll_unknown_zone_counterexample:
  "fst (schedule_guild_poll \<lparr>jobs = [], sched_log = []\<rparr> [''UTC''] ''1''
          (empty_config\<lparr>cfg_timezone := Some ''Mars/Base''\<rparr>)) \<noteq> Raise UnknownTimeZoneError"
  by (simp add: schedule_returns)


section \<open>Properties of the configuration manager\<close>

lemma configs_log_cm [simp]: "configs (log_cm lv msg c) = configs c"
  by (simp add: log_cm_def)

lemma config_file_log_cm [simp]: "config_file (log_cm lv msg c) = config_file c"
  by (simp add: log_cm_def)

lemma configs_save_configs [simp]: "configs (save_configs c w) = configs c"
  by (simp add: save_configs_def)

lemma config_file_save_configs:
  "config_file (save_configs c w) = (if w then configs c else config_file c)"
  by (simp add: save_configs_def)

lemma length_config_default_poll_options: "length config_default_poll_options = 7"
  by (simp add: config_default_poll_options_def)

lemma length_poll_emojis: "length poll_emojis = 7"
  by (simp add: poll_emojis_def)

lemma get_guild_config_stored:
  "configs c guild_id = Some stored \<Longrightarrow> get_guild_config c w guild_id = (stored, c)"
  by (simp add: get_guild_config_def get_or_def)

lemma get_guild_config_fresh:
  assumes "configs c guild_id = None"
  shows "fst (get_guild_config c w guild_id) = get_default_config"
    and "configs (snd (get_guild_config c w guild_id)) = (configs c)(guild_id \<mapsto> get_default_config)"
    and "w \<Longrightarrow> config_file (snd (get_guild_config c w guild_id))
               = (configs c)(guild_id \<mapsto> get_default_config)"
  using assms
  by (simp_all add: get_guild_config_def initialize_guild_def get_or_def Let_def
        config_file_save_configs)

text \<open>
  Claim C8.  For a guild that has no configuration yet, \<open>get_guild_config\<close> stores the
  default configuration under the guild (in memory, and in the file when the file can be
  written) and returns it: polls disabled, no channel, 08:00, timezone UTC, and the seven
  built-in option texts, which pair with the seven reaction emojis.  A later
  \<open>get_guild_config\<close>, for this or any guild that has a configuration, returns the stored
  configuration and changes nothing.
\<close>

theorem get_guild_config_first_access:
  assumes "configs c guild_id = None"
  shows "fst (get_guild_config c write_ok guild_id) = get_default_config \<and>
     configs (snd (get_guild_config c write_ok guild_id))
       = (configs c)(guild_id \<mapsto> get_default_config) \<and>
     (write_ok \<longrightarrow> config_file (snd (get_guild_config c write_ok guild_id))
       = (configs c)(guild_id \<mapsto> get_default_config)) \<and>
     cfg_enabled get_default_config = Some False \<and>
     cfg_channel_id get_default_config = None \<and>
     cfg_poll_hour get_default_config = Some 8 \<and>
     cfg_poll_minute get_default_config = Some 0 \<and>
     cfg_timezone get_default_config = Some ''UTC'' \<and>
     cfg_poll_options get_default_config = Some config_default_poll_options \<and>
     length config_default_poll_options = 7 \<and>
     length (zip poll_emojis config_default_poll_options) = 7 \<and>
     get_guild_config (snd (get_guild_config c write_ok guild_id)) write_ok' guild_id
       = (get_default_config, snd (get_guild_config c write_ok guild_id)) \<and>
     (\<forall>c' stored. configs c' guild_id = Some stored \<longrightarrow>
        get_guild_config c' write_ok' guild_id = (stored, c'))"
proof -
  have again: "get_guild_config (snd (get_guild_config c write_ok guild_id)) write_ok' guild_id
       = (get_default_config, snd (get_guild_config c write_ok guild_id))"
    by (rule get_guild_config_stored) (simp add: get_guild_config_fresh(2)[OF assms])
  show ?thesis
    using get_guild_config_fresh[OF assms, of write_ok] again
    by (simp add: get_guild_config_stored length_config_default_poll_options length_poll_emojis)
       (simp add: get_default_config_def)
qed

theorem get_guild_config_first_access_witness:
  "configs \<lparr>configs = Map.empty, config_file = Map.empty, cm_log = []\<rparr> ''42'' = None \<and>
   fst (get_guild_config \<lparr>configs = Map.empty, config_file = Map.empty, cm_log = []\<rparr> True ''42'')
     = get_default_config \<and>
   config_file (snd (get_guild_config
       \<lparr>configs = Map.empty, config_file = Map.empty, cm_log = []\<rparr> True ''42'')) ''42''
     = Some get_default_config"
  using get_guild_config_first_access[where c = "\<lparr>configs = Map.empty, config_file = Map.empty, cm_log = []\<rparr>"
          and guild_id = "''42''" and write_ok = True and write_ok' = True]
  by simp

end
